theory Spec2Isabelle
  imports Main "HOL-Library.Word" "HOL-Library.Signed_Division" "HOL-Library.Monad_Syntax"
begin

section \<open>The T5 encoder subgraph: data model\<close>

text \<open>
  The development embeds \<^verbatim>\<open>contrib_ops/cpu/transformers/subgraph_t5_encoder.cc\<close>:
  \<^verbatim>\<open>T5EncoderSubgraph::Validate\<close> and \<^verbatim>\<open>T5EncoderSubgraph::CreateInitialFeeds\<close>.
  Member functions take the object (\<open>this\<close>) and return it updated; a C++ \<^verbatim>\<open>int\<close> is a
  \<open>32 word\<close> read with \<open>sint\<close>; a pointer that may be null is an \<open>option\<close>.
\<close>

type_synonym int32 = "32 word"

text \<open>The element types of ONNX tensors (\<^verbatim>\<open>TensorProto_DataType\<close>), in the order of the enum.\<close>

datatype TensorProto_DataType =
    TensorProto_DataType_UNDEFINED
  | TensorProto_DataType_FLOAT
  | TensorProto_DataType_UINT8
  | TensorProto_DataType_INT8
  | TensorProto_DataType_UINT16
  | TensorProto_DataType_INT16
  | TensorProto_DataType_INT32
  | TensorProto_DataType_INT64
  | TensorProto_DataType_STRING
  | TensorProto_DataType_BOOL
  | TensorProto_DataType_FLOAT16
  | TensorProto_DataType_DOUBLE
  | TensorProto_DataType_UINT32
  | TensorProto_DataType_UINT64
  | TensorProto_DataType_COMPLEX64
  | TensorProto_DataType_COMPLEX128
  | TensorProto_DataType_BFLOAT16

text \<open>A dimension of a declared shape: a concrete value, a symbolic name, or nothing.\<close>

datatype Dimension = dim_value int | dim_param string | dim_unset

type_synonym TensorShapeProto = "Dimension list"

text \<open>
  A descriptor of the signature (\<^verbatim>\<open>NodeArg\<close>). \<open>Name\<close> is \<^verbatim>\<open>Name()\<close>, \<open>elem_type\<close> is
  \<^verbatim>\<open>TypeAsProto()->tensor_type().elem_type()\<close>, and \<open>Shape\<close> is \<^verbatim>\<open>Shape()\<close>, a pointer that
  is null when the descriptor declares no shape.
\<close>

record NodeArg =
  Name :: string
  elem_type :: TensorProto_DataType
  Shape :: "TensorShapeProto option"

text \<open>
  What \<^verbatim>\<open>Validate\<close> reports. Every \<^verbatim>\<open>ORT_RETURN_IF\<close> of the source is one value:
  \<^item> \<open>WrongInputCount n\<close>: "expect 3 inputs, got:" \<open>n\<close>;
  \<^item> \<open>WrongOutputCount text n\<close>: "expect >=6 outputs, got:" \<open>n\<close>, or "number of outputs
    expected to be 2 + 4 * layers, got:" \<open>n\<close> (the text is kept);
  \<^item> \<open>NameMismatch k i expected actual\<close>: "subgraph \<open>k\<close> \<open>i\<close> shall be named as \<open>expected\<close>,
    got: " \<open>actual\<close>;
  \<^item> \<open>UnsupportedDataType k i\<close>: "subgraph input \<open>i\<close> (...) shall have int32 type", or
    "subgraph output 0 (logits) shall be float or float16 data type";
  \<^item> \<open>ShapeInferenceError text\<close>: a failure of \<^verbatim>\<open>GetParameters\<close>, passed on as it is.
\<close>

datatype io = Input | Output

datatype error =
    WrongInputCount int32
  | WrongOutputCount string int32
  | NameMismatch io nat string string
  | ShapeInferenceError string
  | UnsupportedDataType io nat

datatype 'e Status = OK | Fail 'e

text \<open>
  The members of the subgraph object that the two functions read or write, named as in
  the source but for the trailing underscore of \<^verbatim>\<open>is_output_float16_\<close> and
  \<^verbatim>\<open>session_state_\<close>. The session state is bound by \<^verbatim>\<open>Setup\<close>; before that the pointer is
  null.
\<close>

record 'ss Subgraph =
  num_implicit_inputs :: int32
  num_subgraph_inputs :: int32
  num_subgraph_outputs :: int32
  num_heads :: int32
  head_size :: int32
  hidden_size :: int32
  num_layers :: int32
  is_output_float16 :: bool
  session_state :: "'ss option"

text \<open>
  Modelled from the spec: \<^verbatim>\<open>Subgraph::GetParameters\<close> is defined outside the file embedded
  here. Its contract (section 4.2) is a deterministic function of the two shapes that
  gives the shape-derived parameters or fails; \<^verbatim>\<open>Validate\<close> takes it as an argument and
  stores what it gives. The third argument is the \<^verbatim>\<open>merged_past\<close> flag of the call.
\<close>

record ShapeParameters =
  shape_num_heads :: int32
  shape_head_size :: int32
  shape_hidden_size :: int32

type_synonym GetParametersFunc =
  "TensorShapeProto option \<Rightarrow> TensorShapeProto option \<Rightarrow> bool \<Rightarrow> error + ShapeParameters"

section \<open>Validate\<close>

text \<open>\<^verbatim>\<open>static_cast<int>\<close> of a \<^verbatim>\<open>size_t\<close>: the value modulo \<open>2 ^ 32\<close>, read as signed.\<close>

definition static_cast_int :: "nat \<Rightarrow> int" where
  "static_cast_int n = sint (word_of_nat n :: int32)"

text \<open>Subtraction of two \<^verbatim>\<open>int\<close>s; signed overflow is undefined behaviour (\<open>None\<close>).\<close>

definition int_sub :: "int \<Rightarrow> int \<Rightarrow> int option" where
  "int_sub a b = (if - (2 ^ 31) \<le> a - b \<and> a - b < 2 ^ 31 then Some (a - b) else None)"

text \<open>\<^verbatim>\<open>v[i]\<close> on a vector: reading past the end is undefined behaviour (\<open>None\<close>).\<close>

definition at :: "'a list \<Rightarrow> nat \<Rightarrow> 'a option" where
  "at v i = (if i < length v then Some (v ! i) else None)"

text \<open>
  The result is \<open>None\<close> where the C++ has undefined behaviour, and otherwise the returned
  status with the object as the call leaves it. The checks stand in the order of the
  source; \<open>smod\<close> and \<open>sdiv\<close> are the truncating \<^verbatim>\<open>%\<close> and \<^verbatim>\<open>/\<close> of C++.
\<close>

definition Validate ::
  "GetParametersFunc \<Rightarrow> 'ss Subgraph \<Rightarrow> NodeArg list \<Rightarrow> NodeArg list
     \<Rightarrow> (error Status \<times> 'ss Subgraph) option" where
  "Validate GetParameters this subgraph_inputs subgraph_outputs =
    (if sint (num_subgraph_inputs this) \<noteq> 3
     then Some (Fail (WrongInputCount (num_subgraph_inputs this)), this)
     else if sint (num_subgraph_outputs this) < 6
     then Some (Fail (WrongOutputCount ''expect >=6 outputs, got:'' (num_subgraph_outputs this)), this)
     else do {
       d \<leftarrow> int_sub (static_cast_int (length subgraph_outputs)) 2;
       if d smod 4 \<noteq> 0
       then Some (Fail (WrongOutputCount ''number of outputs expected to be 2 + 4 * layers, got:''
                    (num_subgraph_outputs this)), this)
       else do {
       in0 \<leftarrow> at subgraph_inputs 0;
       if Name in0 \<noteq> ''encoder_input_ids''
       then Some (Fail (NameMismatch Input 0 ''encoder_input_ids'' (Name in0)), this)
       else do {
       in1 \<leftarrow> at subgraph_inputs 1;
       if Name in1 \<noteq> ''encoder_attention_mask''
       then Some (Fail (NameMismatch Input 1 ''encoder_attention_mask'' (Name in1)), this)
       else do {
       in2 \<leftarrow> at subgraph_inputs 2;
       if Name in2 \<noteq> ''decoder_input_ids''
       then Some (Fail (NameMismatch Input 2 ''decoder_input_ids'' (Name in2)), this)
       else do {
       out0 \<leftarrow> at subgraph_outputs 0;
       if Name out0 \<noteq> ''logits''
       then Some (Fail (NameMismatch Output 0 ''logits'' (Name out0)), this)
       else do {
       out1 \<leftarrow> at subgraph_outputs 1;
       if Name out1 \<noteq> ''encoder_hidden_states''
       then Some (Fail (NameMismatch Output 1 ''encoder_hidden_states'' (Name out1)), this)
       else do {
       out2 \<leftarrow> at subgraph_outputs 2;
       if Name out2 \<noteq> ''present_key_self_0''
       then Some (Fail (NameMismatch Output 2 ''present_key_self_0'' (Name out2)), this)
       else do {
       out3 \<leftarrow> at subgraph_outputs 3;
       if Name out3 \<noteq> ''present_value_self_0''
       then Some (Fail (NameMismatch Output 3 ''present_value_self_0'' (Name out3)), this)
       else
         let past_shape = Shape out2;
             logits_shape = Shape out0
         in case GetParameters past_shape logits_shape False of
           Inl e \<Rightarrow> Some (Fail e, this)
         | Inr p \<Rightarrow>
             let this = this\<lparr>num_heads := shape_num_heads p,
                              head_size := shape_head_size p,
                              hidden_size := shape_hidden_size p\<rparr>;
                 this = this\<lparr>num_layers := word_of_int (d sdiv 4)\<rparr>
             in if elem_type in0 \<noteq> TensorProto_DataType_INT32
                then Some (Fail (UnsupportedDataType Input 0), this)
                else if elem_type in1 \<noteq> TensorProto_DataType_INT32
                then Some (Fail (UnsupportedDataType Input 1), this)
                else if elem_type in2 \<noteq> TensorProto_DataType_INT32
                then Some (Fail (UnsupportedDataType Input 2), this)
                else
                  let output_type = elem_type out0
                  in if output_type \<noteq> TensorProto_DataType_FLOAT
                        \<and> output_type \<noteq> TensorProto_DataType_FLOAT16
                     then Some (Fail (UnsupportedDataType Output 0), this)
                     else Some (OK, this\<lparr>is_output_float16 :=
                                           (output_type = TensorProto_DataType_FLOAT16)\<rparr>)
       }}}}}}}})"

text \<open>
  \<^verbatim>\<open>Validate\<close> compares the members \<^verbatim>\<open>num_subgraph_inputs\<close> and \<^verbatim>\<open>num_subgraph_outputs\<close>,
  not the sizes of its arguments. The constructor of the object sets both members from
  the graph whose inputs and outputs \<^verbatim>\<open>Setup\<close> later passes to \<^verbatim>\<open>Validate\<close>; this predicate
  says so, and "input count" and "output count" in the theorems mean either.
\<close>

definition constructed_from :: "'ss Subgraph \<Rightarrow> NodeArg list \<Rightarrow> NodeArg list \<Rightarrow> bool" where
  "constructed_from this subgraph_inputs subgraph_outputs \<longleftrightarrow>
     sint (num_subgraph_inputs this) = int (length subgraph_inputs) \<and>
     sint (num_subgraph_outputs this) = int (length subgraph_outputs)"

text \<open>
  The contract table of the specification (section 6), used to state the properties of
  names: the fixed positions in the order input 0, 1, 2, output 0, 1, 2, 3.
\<close>

definition contract_names :: "(io \<times> nat \<times> string) list" where
  "contract_names =
     [(Input, 0, ''encoder_input_ids''),
      (Input, 1, ''encoder_attention_mask''),
      (Input, 2, ''decoder_input_ids''),
      (Output, 0, ''logits''),
      (Output, 1, ''encoder_hidden_states''),
      (Output, 2, ''present_key_self_0''),
      (Output, 3, ''present_value_self_0'')]"

fun descriptor :: "NodeArg list \<Rightarrow> NodeArg list \<Rightarrow> io \<Rightarrow> nat \<Rightarrow> NodeArg" where
  "descriptor subgraph_inputs subgraph_outputs Input i = subgraph_inputs ! i"
| "descriptor subgraph_inputs subgraph_outputs Output i = subgraph_outputs ! i"

fun named_as :: "NodeArg list \<Rightarrow> NodeArg list \<Rightarrow> io \<times> nat \<times> string \<Rightarrow> bool" where
  "named_as subgraph_inputs subgraph_outputs (k, i, expected) =
     (Name (descriptor subgraph_inputs subgraph_outputs k i) = expected)"

definition contract_names_hold :: "NodeArg list \<Rightarrow> NodeArg list \<Rightarrow> bool" where
  "contract_names_hold subgraph_inputs subgraph_outputs =
     list_all (named_as subgraph_inputs subgraph_outputs) contract_names"

text \<open>The count rules of the contract: 3 inputs, and \<open>2 + 4 * layers\<close> outputs, at least 6.\<close>

definition contract_counts_hold :: "NodeArg list \<Rightarrow> NodeArg list \<Rightarrow> bool" where
  "contract_counts_hold subgraph_inputs subgraph_outputs \<longleftrightarrow>
     length subgraph_inputs = 3 \<and> 6 \<le> length subgraph_outputs \<and>
     (int (length subgraph_outputs) - 2) mod 4 = 0"

text \<open>The element types of the contract: 32-bit integer inputs, a float or float16 output 0.\<close>

definition contract_types_hold :: "NodeArg list \<Rightarrow> NodeArg list \<Rightarrow> bool" where
  "contract_types_hold subgraph_inputs subgraph_outputs \<longleftrightarrow>
     elem_type (subgraph_inputs ! 0) = TensorProto_DataType_INT32 \<and>
     elem_type (subgraph_inputs ! 1) = TensorProto_DataType_INT32 \<and>
     elem_type (subgraph_inputs ! 2) = TensorProto_DataType_INT32 \<and>
     (elem_type (subgraph_outputs ! 0) = TensorProto_DataType_FLOAT \<or>
      elem_type (subgraph_outputs ! 0) = TensorProto_DataType_FLOAT16)"

text \<open>The object after \<^verbatim>\<open>GetParameters\<close> gave \<open>p\<close> and \<^verbatim>\<open>num_layers\<close> was assigned \<open>n\<close>.\<close>

definition with_parameters :: "'ss Subgraph \<Rightarrow> ShapeParameters \<Rightarrow> int32 \<Rightarrow> 'ss Subgraph" where
  "with_parameters this p n =
     this\<lparr>num_heads := shape_num_heads p, head_size := shape_head_size p,
          hidden_size := shape_hidden_size p, num_layers := n\<rparr>"

section \<open>CreateInitialFeeds\<close>

text \<open>
  A tensor as far as the function looks at it: its shape, its \<^verbatim>\<open>int32\<close> data and the
  memory it lives in. An \<^verbatim>\<open>OrtValue\<close> holds a tensor or, default-constructed, nothing.
\<close>

type_synonym OrtMemoryInfo = string

record Tensor =
  TensorShape :: "int list"
  Data :: "int32 list"
  Location :: OrtMemoryInfo

type_synonym OrtValue = "Tensor option"

text \<open>
  The two hooks are arguments of the function, as in the source. A hook returns its status
  and what it left in the arguments it takes by reference: the expansion hook the sequence
  lengths and the three expanded tensors, the feed hook the feeds and the scratch buffer.
  \<open>'a\<close> is the allocator, \<open>'p\<close> the execution provider, \<open>'b\<close> the buffer, \<open>'e\<close> a hook's error.
\<close>

type_synonym ('a, 'e) CreateEncoderInputsFunc =
  "Tensor \<Rightarrow> int32 \<Rightarrow> int32 \<Rightarrow> int32 \<Rightarrow> int32 list \<Rightarrow> 'a
     \<Rightarrow> 'e Status \<times> int32 list \<times> OrtValue \<times> OrtValue \<times> OrtValue"

type_synonym ('p, 'b, 'e) AddToFeedsFunc =
  "'p \<Rightarrow> OrtValue \<Rightarrow> OrtValue \<Rightarrow> OrtValue \<Rightarrow> OrtValue list \<Rightarrow> 'b
     \<Rightarrow> 'e Status \<times> OrtValue list \<times> 'b"

text \<open>
  A call either throws or returns a value: \<open>Throws\<close> is the failure of an \<^verbatim>\<open>ORT_ENFORCE\<close>, with
  its message, and \<open>Throws_length_error\<close> the \<^verbatim>\<open>std::length_error\<close> of \<^verbatim>\<open>vector::reserve\<close>.
\<close>

datatype 'r outcome = Throws string | Throws_length_error | Returns 'r

text \<open>The arguments passed by reference, as the call leaves them.\<close>

record 'b References =
  sequence_lengths_after :: "int32 list"
  feeds_after :: "OrtValue list"
  buffer_after :: 'b

text \<open>The loop over \<^verbatim>\<open>implicit_inputs\<close>: one \<^verbatim>\<open>push_back\<close> for each entry, first to last.\<close>

fun push_back_all :: "OrtValue list \<Rightarrow> OrtValue list \<Rightarrow> OrtValue list" where
  "push_back_all feeds [] = feeds"
| "push_back_all feeds (entry # implicit_inputs) = push_back_all (feeds @ [entry]) implicit_inputs"

text \<open>
  \<^verbatim>\<open>static_cast<size_t>\<close> of an \<^verbatim>\<open>int\<close>: the value modulo \<open>2 ^ 64\<close>, so that a negative count
  becomes a very large one. The count that \<^verbatim>\<open>feeds.reserve\<close> is asked for is the sum of the
  two casts, again modulo \<open>2 ^ 64\<close>.
\<close>

definition static_cast_size_t :: "int32 \<Rightarrow> nat" where
  "static_cast_size_t n = nat (sint n mod 2 ^ 64)"

definition reserve_request :: "'ss Subgraph \<Rightarrow> nat" where
  "reserve_request this =
     (static_cast_size_t (num_subgraph_inputs this)
        + static_cast_size_t (num_implicit_inputs this)) mod 2 ^ 64"

text \<open>
  \<open>GetAllocator\<close> (of the session state) and \<open>GetProvider\<close> (of the subgraph, which reads
  the session state) are defined outside the file and taken as arguments, and so is
  \<open>max_size\<close>, the largest count a vector of \<^verbatim>\<open>OrtValue\<close> can hold on the platform. The call
  \<^verbatim>\<open>feeds.reserve\<close> throws when it is asked for more than \<open>max_size\<close> and leaves the vector
  as it is; otherwise it changes the capacity of the vector only. That an allocation can
  fail for lack of memory is not part of the model.
\<close>

definition CreateInitialFeeds ::
  "nat \<Rightarrow> ('ss \<Rightarrow> OrtMemoryInfo \<Rightarrow> 'a) \<Rightarrow> ('ss \<Rightarrow> 'p) \<Rightarrow> 'ss Subgraph
     \<Rightarrow> Tensor \<Rightarrow> OrtValue list \<Rightarrow> int32 \<Rightarrow> int32 \<Rightarrow> int32
     \<Rightarrow> int32 list \<Rightarrow> OrtValue list
     \<Rightarrow> ('a, 'e) CreateEncoderInputsFunc \<Rightarrow> ('p, 'b, 'e) AddToFeedsFunc \<Rightarrow> 'b
     \<Rightarrow> 'e Status outcome \<times> 'b References" where
  "CreateInitialFeeds max_size GetAllocator GetProvider this
       encoder_input_ids implicit_inputs num_beams pad_token_id start_token_id
       sequence_lengths feeds create_encoder_inputs_func add_to_feeds_func buffer =
    (case session_state this of
       None \<Rightarrow>
         (Throws ''Setup must be called before CreateInitialFeeds'',
          \<lparr>sequence_lengths_after = sequence_lengths, feeds_after = feeds, buffer_after = buffer\<rparr>)
     | Some state \<Rightarrow>
        if max_size < reserve_request this
        then (Throws_length_error,
              \<lparr>sequence_lengths_after = sequence_lengths, feeds_after = feeds, buffer_after = buffer\<rparr>)
        else
        (let cpu_alloactor = GetAllocator state (Location encoder_input_ids)
         in case create_encoder_inputs_func encoder_input_ids num_beams pad_token_id
                   start_token_id sequence_lengths cpu_alloactor of
           (Fail e, sequence_lengths, expanded) \<Rightarrow>
             (Returns (Fail e),
              \<lparr>sequence_lengths_after = sequence_lengths, feeds_after = feeds, buffer_after = buffer\<rparr>)
         | (OK, sequence_lengths, expanded_encoder_input_ids,
              expanded_encoder_attention_mask, expanded_decoder_input_ids) \<Rightarrow>
            (let provider = GetProvider state
             in case add_to_feeds_func provider expanded_encoder_input_ids
                       expanded_encoder_attention_mask expanded_decoder_input_ids
                       feeds buffer of
               (Fail e, feeds, buffer) \<Rightarrow>
                 (Returns (Fail e),
                  \<lparr>sequence_lengths_after = sequence_lengths, feeds_after = feeds, buffer_after = buffer\<rparr>)
             | (OK, feeds, buffer) \<Rightarrow>
                 (Returns OK,
                  \<lparr>sequence_lengths_after = sequence_lengths,
                   feeds_after = push_back_all feeds implicit_inputs,
                   buffer_after = buffer\<rparr>))))"

text \<open>
  Sequence lengths laid out batch-major, beam-minor: \<open>batch_size * num_beams\<close> entries, and
  every entry equal to the first entry of its group of \<open>num_beams\<close>.
\<close>

definition beam_groups_equal :: "nat \<Rightarrow> nat \<Rightarrow> int32 list \<Rightarrow> bool" where
  "beam_groups_equal batch_size num_beams lengths \<longleftrightarrow>
     length lengths = batch_size * num_beams \<and>
     list_all (\<lambda>i. lengths ! i = lengths ! (i div num_beams * num_beams)) [0 ..< length lengths]"

text \<open>The batch size of the encoder input: the first dimension of its shape.\<close>

definition batch_size_of :: "Tensor \<Rightarrow> nat" where
  "batch_size_of encoder_input_ids = nat (hd (TensorShape encoder_input_ids))"

text \<open>
  Hooks to run the model with. The idle expansion hook leaves the sequence lengths as they
  come; the filling one writes, for each batch row, the given length once per beam into the
  front of the buffer it is handed. Both report success with three tensors: the input ids,
  their mask (0 at a pad token, 1 elsewhere) and one start token for each batch row. The
  pushing feed hook appends its three tensors. The failing hooks report an error.
\<close>

definition example_expansion :: "Tensor \<Rightarrow> int32 \<Rightarrow> int32 \<Rightarrow> OrtValue \<times> OrtValue \<times> OrtValue" where
  "example_expansion encoder_input_ids pad_token_id start_token_id =
     (Some encoder_input_ids,
      Some (encoder_input_ids\<lparr>Data :=
        map (\<lambda>token. if token = pad_token_id then 0 else 1) (Data encoder_input_ids)\<rparr>),
      Some (encoder_input_ids\<lparr>TensorShape := [hd (TensorShape encoder_input_ids), 1],
        Data := replicate (nat (hd (TensorShape encoder_input_ids))) start_token_id\<rparr>))"

definition idle_create_encoder_inputs :: "(unit, string) CreateEncoderInputsFunc" where
  "idle_create_encoder_inputs encoder_input_ids num_beams pad_token_id start_token_id
       sequence_lengths allocator =
     (OK, sequence_lengths, example_expansion encoder_input_ids pad_token_id start_token_id)"

definition filling_create_encoder_inputs ::
  "int32 list \<Rightarrow> (unit, string) CreateEncoderInputsFunc" where
  "filling_create_encoder_inputs row_lengths encoder_input_ids num_beams pad_token_id
       start_token_id sequence_lengths allocator =
     (let written = concat (map (replicate (nat (sint num_beams))) row_lengths)
      in (OK, take (length sequence_lengths) written @ drop (length written) sequence_lengths,
          example_expansion encoder_input_ids pad_token_id start_token_id))"

definition failing_create_encoder_inputs :: "(unit, string) CreateEncoderInputsFunc" where
  "failing_create_encoder_inputs encoder_input_ids num_beams pad_token_id start_token_id
       sequence_lengths allocator =
     (Fail ''AllocationError'', sequence_lengths, None, None, None)"

definition push_add_to_feeds :: "(unit, unit, string) AddToFeedsFunc" where
  "push_add_to_feeds provider a b c feeds buffer = (OK, feeds @ [a, b, c], buffer)"

definition failing_add_to_feeds :: "(unit, unit, string) AddToFeedsFunc" where
  "failing_add_to_feeds provider a b c feeds buffer = (Fail ''DeviceMismatchError'', feeds @ [a], buffer)"

text \<open>Values to run the model with: a well-formed one-layer signature and an object.\<close>

definition example_inputs :: "NodeArg list" where
  "example_inputs =
     [\<lparr>Name = ''encoder_input_ids'', elem_type = TensorProto_DataType_INT32, Shape = None\<rparr>,
      \<lparr>Name = ''encoder_attention_mask'', elem_type = TensorProto_DataType_INT32, Shape = None\<rparr>,
      \<lparr>Name = ''decoder_input_ids'', elem_type = TensorProto_DataType_INT32, Shape = None\<rparr>]"

definition example_outputs :: "NodeArg list" where
  "example_outputs =
     [\<lparr>Name = ''logits'', elem_type = TensorProto_DataType_FLOAT16,
       Shape = Some [dim_param ''batch'', dim_param ''seq'', dim_value 32128]\<rparr>,
      \<lparr>Name = ''encoder_hidden_states'', elem_type = TensorProto_DataType_FLOAT16, Shape = None\<rparr>,
      \<lparr>Name = ''present_key_self_0'', elem_type = TensorProto_DataType_FLOAT16,
       Shape = Some [dim_param ''batch'', dim_value 8, dim_param ''seq'', dim_value 64]\<rparr>,
      \<lparr>Name = ''present_value_self_0'', elem_type = TensorProto_DataType_FLOAT16, Shape = None\<rparr>,
      \<lparr>Name = ''present_key_cross_0'', elem_type = TensorProto_DataType_FLOAT16, Shape = None\<rparr>,
      \<lparr>Name = ''present_value_cross_0'', elem_type = TensorProto_DataType_FLOAT16, Shape = None\<rparr>]"

definition example_parameters :: ShapeParameters where
  "example_parameters = \<lparr>shape_num_heads = 8, shape_head_size = 64, shape_hidden_size = 512\<rparr>"

definition example_GetParameters :: GetParametersFunc where
  "example_GetParameters past_shape logits_shape merged_past =
     (case past_shape of
        Some [_, dim_value heads, _, dim_value width] \<Rightarrow>
          Inr \<lparr>shape_num_heads = word_of_int heads, shape_head_size = word_of_int width,
               shape_hidden_size = word_of_int (heads * width)\<rparr>
      | _ \<Rightarrow> Inl (ShapeInferenceError ''past state shape''))"

definition example_subgraph :: "nat \<Rightarrow> nat \<Rightarrow> unit option \<Rightarrow> unit Subgraph" where
  "example_subgraph n_inputs n_outputs session =
     \<lparr>num_implicit_inputs = 0, num_subgraph_inputs = word_of_nat n_inputs,
      num_subgraph_outputs = word_of_nat n_outputs, num_heads = 0, head_size = 0,
      hidden_size = 0, num_layers = 0, is_output_float16 = False, session_state = session\<rparr>"

text \<open>A \<open>max_size\<close> to run the model with: that of a vector of 32-byte elements.\<close>

definition example_max_size :: nat where
  "example_max_size = (2 ^ 63 - 1) div 32"

definition example_tensor :: Tensor where
  "example_tensor = \<lparr>TensorShape = [2, 3], Data = [5, 6, 7, 8, 9, 0], Location = ''Cpu''\<rparr>"

definition example_mask :: Tensor where
  "example_mask = \<lparr>TensorShape = [2, 3], Data = [1, 1, 1, 1, 1, 0], Location = ''Cpu''\<rparr>"

definition example_decoder_input_ids :: Tensor where
  "example_decoder_input_ids = \<lparr>TensorShape = [2, 1], Data = [0, 0], Location = ''Cpu''\<rparr>"

text \<open>A signature with one descriptor renamed, or given another element type.\<close>

definition renamed :: "NodeArg list \<Rightarrow> nat \<Rightarrow> string \<Rightarrow> NodeArg list" where
  "renamed v i name = v[i := (v ! i)\<lparr>Name := name\<rparr>]"

definition retyped :: "NodeArg list \<Rightarrow> nat \<Rightarrow> TensorProto_DataType \<Rightarrow> NodeArg list" where
  "retyped v i t = v[i := (v ! i)\<lparr>elem_type := t\<rparr>]"

text \<open>The inputs and the outputs of a signature after input or output \<open>i\<close> was renamed.\<close>

fun renamed_inputs :: "io \<Rightarrow> nat \<Rightarrow> string \<Rightarrow> NodeArg list \<Rightarrow> NodeArg list" where
  "renamed_inputs Input i name subgraph_inputs = renamed subgraph_inputs i name"
| "renamed_inputs Output i name subgraph_inputs = subgraph_inputs"

fun renamed_outputs :: "io \<Rightarrow> nat \<Rightarrow> string \<Rightarrow> NodeArg list \<Rightarrow> NodeArg list" where
  "renamed_outputs Input i name subgraph_outputs = subgraph_outputs"
| "renamed_outputs Output i name subgraph_outputs = renamed subgraph_outputs i name"

section \<open>Arithmetic of the counts\<close>

lemma sint_int32_range: "- (2 ^ 31) \<le> sint (w :: int32) \<and> sint w < 2 ^ 31"
  using sint_ge [of w] sint_lt [of w] by simp

lemma sint_word_of_int_small:
  "- (2 ^ 31) \<le> k \<Longrightarrow> k < 2 ^ 31 \<Longrightarrow> sint (word_of_int k :: int32) = k"
  by (simp add: sint_sbintrunc' signed_take_bit_int_eq_self)

lemma static_cast_int_small: "n < 2 ^ 31 \<Longrightarrow> static_cast_int n = int n"
proof -
  assume "n < 2 ^ 31"
  then have "int n < 2 ^ 31" by simp
  moreover have "(word_of_nat n :: int32) = word_of_int (int n)" by simp
  ultimately show ?thesis
    unfolding static_cast_int_def by (simp only: sint_word_of_int_small of_nat_0_le_iff)
qed

lemma static_cast_int_sint: "sint (w :: int32) = int n \<Longrightarrow> static_cast_int n = int n"
  using sint_int32_range [of w] by (simp add: static_cast_int_small)

lemma smod_nonneg: "0 \<le> a \<Longrightarrow> a smod 4 = a mod (4::int)"
  by (simp add: signed_modulo_int_def sgn_if)

lemma sdiv_nonneg: "0 \<le> a \<Longrightarrow> a sdiv 4 = a div (4::int)"
  by (simp add: signed_divide_int_def sgn_if)

lemma outputs_difference:
  assumes "sint (w :: int32) = int n" and "2 \<le> n"
  shows "int_sub (static_cast_int n) 2 = Some (int n - 2)"
  using assms sint_int32_range [of w]
  by (simp add: static_cast_int_sint [OF assms(1)] int_sub_def)

section \<open>The stages of Validate\<close>

lemma contract_names_hold_iff:
  "contract_names_hold ins outs \<longleftrightarrow>
     Name (ins ! 0) = ''encoder_input_ids'' \<and> Name (ins ! 1) = ''encoder_attention_mask'' \<and>
     Name (ins ! 2) = ''decoder_input_ids'' \<and> Name (outs ! 0) = ''logits'' \<and>
     Name (outs ! 1) = ''encoder_hidden_states'' \<and> Name (outs ! 2) = ''present_key_self_0'' \<and>
     Name (outs ! 3) = ''present_value_self_0''"
  by (simp add: contract_names_hold_def contract_names_def)

lemma at_fixed_positions:
  assumes "contract_counts_hold ins outs"
  shows "at ins 0 = Some (ins ! 0)" and "at ins (Suc 0) = Some (ins ! Suc 0)"
    and "at ins 2 = Some (ins ! 2)" and "at outs 0 = Some (outs ! 0)"
    and "at outs (Suc 0) = Some (outs ! Suc 0)" and "at outs 2 = Some (outs ! 2)"
    and "at outs 3 = Some (outs ! 3)"
  using assms by (auto simp: contract_counts_hold_def at_def)

text \<open>With the counts of the contract, the three count checks pass and no cast wraps.\<close>

lemma Validate_counts_pass:
  assumes "constructed_from this ins outs" and "contract_counts_hold ins outs"
  shows "sint (num_subgraph_inputs this) = 3" and "\<not> sint (num_subgraph_outputs this) < 6"
    and "int_sub (static_cast_int (length outs)) 2 = Some (int (length outs) - 2)"
    and "(int (length outs) - 2) smod 4 = 0"
    and "(int (length outs) - 2) sdiv 4 = (int (length outs) - 2) div 4"
proof -
  from assms have n: "sint (num_subgraph_outputs this) = int (length outs)" "6 \<le> length outs"
    and m: "sint (num_subgraph_inputs this) = int (length ins)" "length ins = 3"
    and r: "(int (length outs) - 2) mod 4 = 0"
    by (simp_all add: constructed_from_def contract_counts_hold_def)
  show "sint (num_subgraph_inputs this) = 3" using m by simp
  show "\<not> sint (num_subgraph_outputs this) < 6" using n by simp
  show "int_sub (static_cast_int (length outs)) 2 = Some (int (length outs) - 2)"
    using n by (intro outputs_difference [of "num_subgraph_outputs this"]) simp_all
  show "(int (length outs) - 2) smod 4 = 0" using n r by (simp add: smod_nonneg)
  show "(int (length outs) - 2) sdiv 4 = (int (length outs) - 2) div 4"
    using n by (simp add: sdiv_nonneg)
qed

text \<open>
  Past the counts, the names and the shapes, the call has stored the parameters and the
  layer count, and only the element types remain to be checked.
\<close>

lemma Validate_type_stage:
  assumes "constructed_from this ins outs" and "contract_counts_hold ins outs"
    and "contract_names_hold ins outs"
    and "GetParameters (Shape (outs ! 2)) (Shape (outs ! 0)) False = Inr p"
  shows "Validate GetParameters this ins outs =
    (let this1 = with_parameters this p (word_of_int ((int (length outs) - 2) div 4))
     in if elem_type (ins ! 0) \<noteq> TensorProto_DataType_INT32
        then Some (Fail (UnsupportedDataType Input 0), this1)
        else if elem_type (ins ! 1) \<noteq> TensorProto_DataType_INT32
        then Some (Fail (UnsupportedDataType Input 1), this1)
        else if elem_type (ins ! 2) \<noteq> TensorProto_DataType_INT32
        then Some (Fail (UnsupportedDataType Input 2), this1)
        else if elem_type (outs ! 0) \<noteq> TensorProto_DataType_FLOAT
                \<and> elem_type (outs ! 0) \<noteq> TensorProto_DataType_FLOAT16
        then Some (Fail (UnsupportedDataType Output 0), this1)
        else Some (OK, this1\<lparr>is_output_float16 :=
                               (elem_type (outs ! 0) = TensorProto_DataType_FLOAT16)\<rparr>))"
  using assms(3,4)
  by (simp add: Validate_def Validate_counts_pass [OF assms(1,2)] contract_names_hold_iff
      at_fixed_positions [OF assms(2)] with_parameters_def Let_def)

text \<open>What an accepted signature has passed.\<close>

lemma Validate_accepted:
  assumes "Validate GetParameters this ins outs = Some (OK, this')"
  shows "sint (num_subgraph_inputs this) = 3 \<and> 6 \<le> sint (num_subgraph_outputs this) \<and>
    (\<exists>d. int_sub (static_cast_int (length outs)) 2 = Some d \<and> d smod 4 = 0) \<and>
    3 \<le> length ins \<and> 4 \<le> length outs \<and> contract_names_hold ins outs \<and>
    contract_types_hold ins outs"
  using assms
  by (auto simp: Validate_def Let_def at_def contract_names_hold_iff contract_types_hold_def
      split: if_splits sum.splits Option.bind_splits)

text \<open>For an object constructed from the signature, no read is out of range.\<close>

lemma Validate_defined:
  assumes "constructed_from this ins outs"
  shows "Validate GetParameters this ins outs \<noteq> None"
proof (cases "sint (num_subgraph_inputs this) = 3 \<and> 6 \<le> sint (num_subgraph_outputs this)")
  case True
  with assms have l: "length ins = 3" "6 \<le> length outs"
    and n: "sint (num_subgraph_outputs this) = int (length outs)"
    by (simp_all add: constructed_from_def)
  have p: "at ins 0 = Some (ins ! 0)" "at ins (Suc 0) = Some (ins ! Suc 0)"
    "at ins 2 = Some (ins ! 2)" "at outs 0 = Some (outs ! 0)"
    "at outs (Suc 0) = Some (outs ! Suc 0)" "at outs 2 = Some (outs ! 2)"
    "at outs 3 = Some (outs ! 3)"
    using l by (auto simp: at_def)
  have d: "int_sub (static_cast_int (length outs)) 2 = Some (int (length outs) - 2)"
    using n l by (intro outputs_difference [of "num_subgraph_outputs this"]) simp_all
  show ?thesis
    by (simp add: Validate_def p d Let_def split: sum.split)
next
  case False
  then show ?thesis by (auto simp: Validate_def)
qed

lemma Validate_keeps:
  assumes "Validate GetParameters this ins outs = Some (status, this')"
  shows "num_implicit_inputs this' = num_implicit_inputs this"
    and "num_subgraph_inputs this' = num_subgraph_inputs this"
    and "num_subgraph_outputs this' = num_subgraph_outputs this"
    and "session_state this' = session_state this"
  using assms
  by (auto simp: Validate_def Let_def split: if_splits sum.splits Option.bind_splits)

lemma parameters_only:
  fixes this this' :: "'ss Subgraph"
  assumes "num_implicit_inputs this' = num_implicit_inputs this"
    and "num_subgraph_inputs this' = num_subgraph_inputs this"
    and "num_subgraph_outputs this' = num_subgraph_outputs this"
    and "session_state this' = session_state this"
  shows "this' = this\<lparr>num_heads := num_heads this', head_size := head_size this',
           hidden_size := hidden_size this', num_layers := num_layers this',
           is_output_float16 := is_output_float16 this'\<rparr>"
  using assms by (cases this, cases this') simp

text \<open>The example signature and object, evaluated.\<close>

lemma example_constructed_from:
  "constructed_from (example_subgraph 3 6 session) example_inputs example_outputs"
  by (simp add: constructed_from_def example_subgraph_def example_inputs_def example_outputs_def)

lemma example_contract:
  "contract_counts_hold example_inputs example_outputs"
  "contract_names_hold example_inputs example_outputs"
  "contract_types_hold example_inputs example_outputs"
  "example_GetParameters (Shape (example_outputs ! 2)) (Shape (example_outputs ! 0)) False
     = Inr example_parameters"
  by (simp_all add: contract_counts_hold_def contract_names_hold_iff contract_types_hold_def
      example_inputs_def example_outputs_def example_GetParameters_def example_parameters_def)

section \<open>Properties of Validate\<close>

text \<open>
  C1. For every layer count \<open>L \<ge> 1\<close>, a signature that satisfies the contract (3 correctly
  named int32 inputs, correctly named outputs, a float or float16 output 0, shapes that
  \<^verbatim>\<open>GetParameters\<close> resolves) and has \<open>2 + 4 * L\<close> outputs is accepted by \<^verbatim>\<open>Validate\<close>; the
  object then has \<^verbatim>\<open>num_layers == L\<close>, records whether output 0 is float16, and holds the
  parameters that \<^verbatim>\<open>GetParameters\<close> extracted.
\<close>

theorem Validate_accepts_layers:
  assumes "constructed_from this ins outs"
    and "1 \<le> L" and "length outs = 2 + 4 * L" and "length ins = 3"
    and "contract_names_hold ins outs" and "contract_types_hold ins outs"
    and "GetParameters (Shape (outs ! 2)) (Shape (outs ! 0)) False = Inr p"
  shows "\<exists>this'. Validate GetParameters this ins outs = Some (OK, this') \<and>
           sint (num_layers this') = int L \<and>
           is_output_float16 this' = (elem_type (outs ! 0) = TensorProto_DataType_FLOAT16) \<and>
           num_heads this' = shape_num_heads p \<and> head_size this' = shape_head_size p \<and>
           hidden_size this' = shape_hidden_size p"
proof -
  have counts: "contract_counts_hold ins outs"
    using assms(2,3,4) by (simp add: contract_counts_hold_def)
  have "int (length outs) < 2 ^ 31"
    using assms(1) sint_int32_range [of "num_subgraph_outputs this"]
    by (simp add: constructed_from_def)
  then have "int L < 2 ^ 31" using assms(3) by simp
  then have layers: "sint (word_of_int (int L) :: int32) = int L"
    by (intro sint_word_of_int_small) simp_all
  have "(int (length outs) - 2) div 4 = int L" using assms(3) by simp
  then show ?thesis
    using assms(6) layers
    by (simp add: contract_types_hold_def with_parameters_def Let_def
        Validate_type_stage [where GetParameters = GetParameters and p = p,
          OF assms(1) counts assms(5,7)])
qed

theorem Validate_accepts_layers_witness:
  "\<exists>this'. Validate example_GetParameters (example_subgraph 3 6 None) example_inputs
              example_outputs = Some (OK, this') \<and>
           sint (num_layers this') = 1 \<and> is_output_float16 this' \<and>
           num_heads this' = 8 \<and> head_size this' = 64 \<and> hidden_size this' = 512"
  using Validate_accepts_layers [of "example_subgraph 3 6 None" example_inputs example_outputs 1
      example_GetParameters example_parameters]
    example_constructed_from [of None] example_contract
  by (simp add: example_inputs_def example_outputs_def example_parameters_def)

text \<open>
  C3. A signature whose output count is less than 6, or whose output count minus 2 is not
  divisible by 4, is never accepted by \<^verbatim>\<open>Validate\<close>; when it has 3 inputs, \<^verbatim>\<open>Validate\<close> fails
  with \<open>WrongOutputCount\<close>, and otherwise with \<open>WrongInputCount\<close>. The object stays as it
  was.
\<close>

theorem Validate_rejects_output_count:
  assumes "constructed_from this ins outs"
    and "length outs < 6 \<or> (int (length outs) - 2) mod 4 \<noteq> 0"
  shows "(\<forall>this'. Validate GetParameters this ins outs \<noteq> Some (OK, this')) \<and>
         (length ins = 3 \<longrightarrow>
            (\<exists>text. Validate GetParameters this ins outs =
               Some (Fail (WrongOutputCount text (num_subgraph_outputs this)), this))) \<and>
         (length ins \<noteq> 3 \<longrightarrow>
            Validate GetParameters this ins outs =
              Some (Fail (WrongInputCount (num_subgraph_inputs this)), this))"
proof (intro conjI allI impI)
  have n: "sint (num_subgraph_outputs this) = int (length outs)"
    and m: "sint (num_subgraph_inputs this) = int (length ins)"
    using assms(1) by (simp_all add: constructed_from_def)
  show "Validate GetParameters this ins outs \<noteq> Some (OK, this')" for this'
  proof
    assume "Validate GetParameters this ins outs = Some (OK, this')"
    from Validate_accepted [OF this] obtain d
      where six: "6 \<le> sint (num_subgraph_outputs this)"
        and d: "int_sub (static_cast_int (length outs)) 2 = Some d" "d smod 4 = 0"
      by blast
    from six n have l: "6 \<le> length outs" by simp
    with n d(1) have "d = int (length outs) - 2"
      by (simp add: outputs_difference [of "num_subgraph_outputs this"])
    with d(2) l have "(int (length outs) - 2) mod 4 = 0"
      by (simp add: smod_nonneg)
    with assms(2) l show False by simp
  qed
  assume three: "length ins = 3"
  show "\<exists>text. Validate GetParameters this ins outs =
          Some (Fail (WrongOutputCount text (num_subgraph_outputs this)), this)"
  proof (cases "length outs < 6")
    case True
    with n m three show ?thesis by (simp add: Validate_def)
  next
    case False
    with assms(2) have r: "(int (length outs) - 2) mod 4 \<noteq> 0" by simp
    from False n have d: "int_sub (static_cast_int (length outs)) 2 = Some (int (length outs) - 2)"
      by (intro outputs_difference [of "num_subgraph_outputs this"]) simp_all
    from False r have "(int (length outs) - 2) smod 4 \<noteq> 0" by (simp add: smod_nonneg)
    with False n m three d show ?thesis by (simp add: Validate_def)
  qed
next
  assume "length ins \<noteq> 3"
  with assms(1) show "Validate GetParameters this ins outs =
      Some (Fail (WrongInputCount (num_subgraph_inputs this)), this)"
    by (simp add: Validate_def constructed_from_def)
qed

theorem Validate_rejects_output_count_witness:
  "(\<forall>this'. Validate example_GetParameters (example_subgraph 3 5 None) example_inputs
       (take 5 example_outputs) \<noteq> Some (OK, this')) \<and>
   length example_inputs = 3 \<and>
   (\<exists>text. Validate example_GetParameters (example_subgraph 3 5 None) example_inputs
       (take 5 example_outputs) =
         Some (Fail (WrongOutputCount text 5), example_subgraph 3 5 None)) \<and>
   length (take 2 example_inputs) \<noteq> 3 \<and>
   Validate example_GetParameters (example_subgraph 2 7 None) (take 2 example_inputs)
     (example_outputs @ [example_outputs ! 5]) =
       Some (Fail (WrongInputCount 2), example_subgraph 2 7 None)"
  using Validate_rejects_output_count [of "example_subgraph 3 5 None" example_inputs
      "take 5 example_outputs" example_GetParameters]
    Validate_rejects_output_count [of "example_subgraph 2 7 None" "take 2 example_inputs"
      "example_outputs @ [example_outputs ! 5]" example_GetParameters]
  by (simp add: constructed_from_def example_subgraph_def example_inputs_def example_outputs_def)

text \<open>
  C3 does not hold for every signature with such an output count: the input count is
  checked first. With 2 inputs and 5 outputs the failure is \<open>WrongInputCount\<close>.
\<close>

theorem Validate_input_count_first:
  "length (take 5 example_outputs) < 6 \<and>
   Validate example_GetParameters (example_subgraph 2 5 None) (take 2 example_inputs)
     (take 5 example_outputs) = Some (Fail (WrongInputCount 2), example_subgraph 2 5 None)"
  by (simp add: Validate_def example_subgraph_def example_outputs_def)

text \<open>The name checks, one by one, each after the names before it were found right.\<close>

lemma Validate_name_stage:
  assumes "constructed_from this ins outs" and "contract_counts_hold ins outs"
  shows "Name (ins ! 0) \<noteq> ''encoder_input_ids'' \<Longrightarrow>
      Validate GetParameters this ins outs =
        Some (Fail (NameMismatch Input 0 ''encoder_input_ids'' (Name (ins ! 0))), this)"
    and "list_all (named_as ins outs) (take 1 contract_names) \<Longrightarrow>
      Name (ins ! 1) \<noteq> ''encoder_attention_mask'' \<Longrightarrow>
      Validate GetParameters this ins outs =
        Some (Fail (NameMismatch Input 1 ''encoder_attention_mask'' (Name (ins ! 1))), this)"
    and "list_all (named_as ins outs) (take 2 contract_names) \<Longrightarrow>
      Name (ins ! 2) \<noteq> ''decoder_input_ids'' \<Longrightarrow>
      Validate GetParameters this ins outs =
        Some (Fail (NameMismatch Input 2 ''decoder_input_ids'' (Name (ins ! 2))), this)"
    and "list_all (named_as ins outs) (take 3 contract_names) \<Longrightarrow>
      Name (outs ! 0) \<noteq> ''logits'' \<Longrightarrow>
      Validate GetParameters this ins outs =
        Some (Fail (NameMismatch Output 0 ''logits'' (Name (outs ! 0))), this)"
    and "list_all (named_as ins outs) (take 4 contract_names) \<Longrightarrow>
      Name (outs ! 1) \<noteq> ''encoder_hidden_states'' \<Longrightarrow>
      Validate GetParameters this ins outs =
        Some (Fail (NameMismatch Output 1 ''encoder_hidden_states'' (Name (outs ! 1))), this)"
    and "list_all (named_as ins outs) (take 5 contract_names) \<Longrightarrow>
      Name (outs ! 2) \<noteq> ''present_key_self_0'' \<Longrightarrow>
      Validate GetParameters this ins outs =
        Some (Fail (NameMismatch Output 2 ''present_key_self_0'' (Name (outs ! 2))), this)"
    and "list_all (named_as ins outs) (take 6 contract_names) \<Longrightarrow>
      Name (outs ! 3) \<noteq> ''present_value_self_0'' \<Longrightarrow>
      Validate GetParameters this ins outs =
        Some (Fail (NameMismatch Output 3 ''present_value_self_0'' (Name (outs ! 3))), this)"
  by (simp_all add: contract_names_def Validate_def Validate_counts_pass [OF assms]
      at_fixed_positions [OF assms(2)])

text \<open>Renaming a fixed position keeps the counts and the names before that position.\<close>

lemma renamed_row:
  assumes "contract_counts_hold ins outs" and "contract_names_hold ins outs"
    and "j < length contract_names" and "contract_names ! j = (k, i, expected)"
  shows "contract_counts_hold (renamed_inputs k i name ins) (renamed_outputs k i name outs)"
    and "list_all (named_as (renamed_inputs k i name ins) (renamed_outputs k i name outs))
           (take j contract_names)"
    and "Name (descriptor (renamed_inputs k i name ins) (renamed_outputs k i name outs) k i) = name"
proof -
  from assms(1) have ne: "outs \<noteq> []" by (auto simp: contract_counts_hold_def)
  from assms(3) consider "j = 0" | "j = 1" | "j = 2" | "j = 3" | "j = 4" | "j = 5" | "j = 6"
    by (simp add: contract_names_def) linarith
  then have "contract_counts_hold (renamed_inputs k i name ins) (renamed_outputs k i name outs) \<and>
    list_all (named_as (renamed_inputs k i name ins) (renamed_outputs k i name outs))
           (take j contract_names) \<and>
    Name (descriptor (renamed_inputs k i name ins) (renamed_outputs k i name outs) k i) = name"
    using assms(1,2,4) ne
    by cases (auto simp: contract_names_def contract_counts_hold_def contract_names_hold_iff
        renamed_def)
  then show "contract_counts_hold (renamed_inputs k i name ins) (renamed_outputs k i name outs)"
    and "list_all (named_as (renamed_inputs k i name ins) (renamed_outputs k i name outs))
           (take j contract_names)"
    and "Name (descriptor (renamed_inputs k i name ins) (renamed_outputs k i name outs) k i) = name"
    by simp_all
qed

lemma renamed_constructed_from:
  "constructed_from this ins outs \<Longrightarrow>
   constructed_from this (renamed_inputs k i name ins) (renamed_outputs k i name outs)"
  by (cases k) (simp_all add: constructed_from_def renamed_def)


text \<open>The first fixed position with a wrong name is the one reported.\<close>

lemma Validate_mismatch_at_row:
  assumes "constructed_from this ins outs" and "contract_counts_hold ins outs"
    and "j < length contract_names" and "contract_names ! j = (k, i, expected)"
    and "list_all (named_as ins outs) (take j contract_names)"
    and "Name (descriptor ins outs k i) \<noteq> expected"
  shows "Validate GetParameters this ins outs =
           Some (Fail (NameMismatch k i expected (Name (descriptor ins outs k i))), this)"
proof -
  note stage = Validate_name_stage [where GetParameters = GetParameters, OF assms(1,2)]
  from assms(3) consider "j = 0" | "j = 1" | "j = 2" | "j = 3" | "j = 4" | "j = 5" | "j = 6"
    by (simp add: contract_names_def) linarith
  then show ?thesis
  proof cases
    case 1
    with assms(4) have row: "k = Input" "i = 0" "expected = ''encoder_input_ids''"
      by (simp_all add: contract_names_def)
    from assms(6) show ?thesis unfolding row by (simp add: stage(1))
  next
    case 2
    with assms(4) have row: "k = Input" "i = 1" "expected = ''encoder_attention_mask''"
      by (simp_all add: contract_names_def)
    from assms(5,6) show ?thesis unfolding row 2 by (simp add: stage(2))
  next
    case 3
    with assms(4) have row: "k = Input" "i = 2" "expected = ''decoder_input_ids''"
      by (simp_all add: contract_names_def)
    from assms(5,6) show ?thesis unfolding row 3 by (simp add: stage(3))
  next
    case 4
    with assms(4) have row: "k = Output" "i = 0" "expected = ''logits''"
      by (simp_all add: contract_names_def)
    from assms(5,6) show ?thesis unfolding row 4 by (simp add: stage(4))
  next
    case 5
    with assms(4) have row: "k = Output" "i = 1" "expected = ''encoder_hidden_states''"
      by (simp_all add: contract_names_def)
    from assms(5,6) show ?thesis unfolding row 5 by (simp add: stage(5))
  next
    case 6
    with assms(4) have row: "k = Output" "i = 2" "expected = ''present_key_self_0''"
      by (simp_all add: contract_names_def)
    from assms(5,6) show ?thesis unfolding row 6 by (simp add: stage(6))
  next
    case 7
    with assms(4) have row: "k = Output" "i = 3" "expected = ''present_value_self_0''"
      by (simp_all add: contract_names_def)
    from assms(5,6) show ?thesis unfolding row 7 by (simp add: stage(7))
  qed
qed

text \<open>
  C4. When the counts are those of the contract and some fixed position (input 0, 1, 2,
  output 0, 1, 2, 3) is not named as the contract says, \<^verbatim>\<open>Validate\<close> fails with
  \<open>NameMismatch\<close> citing the first such position in that order, with the expected and the
  actual name. So renaming any one fixed-position descriptor of a signature whose names
  were right makes \<^verbatim>\<open>Validate\<close> fail citing that position.
\<close>

theorem Validate_cites_first_mismatch:
  assumes "constructed_from this ins outs" and "contract_counts_hold ins outs"
    and "j < length contract_names" and "contract_names ! j = (k, i, expected)"
  shows "(list_all (named_as ins outs) (take j contract_names) \<and>
          Name (descriptor ins outs k i) \<noteq> expected \<longrightarrow>
            Validate GetParameters this ins outs =
              Some (Fail (NameMismatch k i expected (Name (descriptor ins outs k i))), this)) \<and>
         (contract_names_hold ins outs \<and> name \<noteq> expected \<longrightarrow>
            Validate GetParameters this (renamed_inputs k i name ins)
                (renamed_outputs k i name outs) =
              Some (Fail (NameMismatch k i expected name), this))"
proof (intro conjI impI)
  assume "list_all (named_as ins outs) (take j contract_names) \<and>
          Name (descriptor ins outs k i) \<noteq> expected"
  then show "Validate GetParameters this ins outs =
      Some (Fail (NameMismatch k i expected (Name (descriptor ins outs k i))), this)"
    using Validate_mismatch_at_row [where GetParameters = GetParameters, OF assms] by blast
next
  assume right: "contract_names_hold ins outs \<and> name \<noteq> expected"
  then have names: "contract_names_hold ins outs" and other: "name \<noteq> expected"
    by simp_all
  note row = renamed_row [where name = name, OF assms(2) names assms(3,4)]
  from other row(3)
  have "Name (descriptor (renamed_inputs k i name ins) (renamed_outputs k i name outs) k i)
      \<noteq> expected"
    by simp
  from Validate_mismatch_at_row [where GetParameters = GetParameters,
      OF renamed_constructed_from [OF assms(1)] row(1) assms(3,4) row(2) this]
  show "Validate GetParameters this (renamed_inputs k i name ins)
      (renamed_outputs k i name outs) = Some (Fail (NameMismatch k i expected name), this)"
    by (simp add: row(3))
qed

theorem Validate_cites_first_mismatch_witness:
  "Validate example_GetParameters (example_subgraph 3 6 None)
     (renamed example_inputs 0 ''ids'') (renamed example_outputs 2 ''present_0'') =
   Some (Fail (NameMismatch Input 0 ''encoder_input_ids'' ''ids''), example_subgraph 3 6 None) \<and>
   Validate example_GetParameters (example_subgraph 3 6 None) example_inputs
     (renamed example_outputs 2 ''present_0'') =
   Some (Fail (NameMismatch Output 2 ''present_key_self_0'' ''present_0''),
         example_subgraph 3 6 None)"
  using Validate_cites_first_mismatch [where this = "example_subgraph 3 6 None"
      and ins = "renamed example_inputs 0 ''ids''"
      and outs = "renamed example_outputs 2 ''present_0''" and j = 0 and k = Input and i = 0
      and expected = "''encoder_input_ids''" and GetParameters = example_GetParameters
      and name = "''ids''"]
    Validate_cites_first_mismatch [where this = "example_subgraph 3 6 None"
      and ins = example_inputs and outs = example_outputs and j = 5 and k = Output and i = 2
      and expected = "''present_key_self_0''" and GetParameters = example_GetParameters
      and name = "''present_0''"]
    example_contract(2)
  by (simp add: constructed_from_def contract_counts_hold_def contract_names_def renamed_def
      example_subgraph_def example_inputs_def example_outputs_def)

text \<open>
  C4 does not hold whenever a name is wrong: the counts are checked before the names.
  With input 0 renamed and only 5 outputs the failure is \<open>WrongOutputCount\<close>.
\<close>

theorem Validate_output_count_before_names:
  "Name (renamed example_inputs 0 ''input_ids'' ! 0) \<noteq> ''encoder_input_ids'' \<and>
   Validate example_GetParameters (example_subgraph 3 5 None)
     (renamed example_inputs 0 ''input_ids'') (take 5 example_outputs) =
   Some (Fail (WrongOutputCount ''expect >=6 outputs, got:'' 5), example_subgraph 3 5 None)"
  by (simp add: Validate_def renamed_def example_subgraph_def example_inputs_def)

text \<open>
  Past the counts, the names and the shapes, a wrong element type is what \<^verbatim>\<open>Validate\<close>
  reports, from an object that already holds the parameters and the layer count.
\<close>

lemma Validate_type_stage_rejects:
  assumes "constructed_from this ins outs" and "contract_counts_hold ins outs"
    and "contract_names_hold ins outs"
    and "GetParameters (Shape (outs ! 2)) (Shape (outs ! 0)) False = Inr p"
    and "\<not> contract_types_hold ins outs"
  shows "\<exists>k i. Validate GetParameters this ins outs =
           Some (Fail (UnsupportedDataType k i),
                 with_parameters this p (word_of_int ((int (length outs) - 2) div 4)))"
  using assms(5)
  by (auto simp: contract_types_hold_def Let_def
      Validate_type_stage [where GetParameters = GetParameters and p = p, OF assms(1-4)])

text \<open>
  C5. A signature in which one of the 3 inputs is not a 32-bit integer tensor, or output 0
  is neither float nor float16, is never accepted by \<^verbatim>\<open>Validate\<close>; when it passes the
  count checks, the name checks and the shape extraction, \<^verbatim>\<open>Validate\<close> fails with
  \<open>UnsupportedDataType\<close>.
\<close>

theorem Validate_rejects_element_types:
  assumes "\<not> contract_types_hold ins outs"
  shows "(\<forall>this'. Validate GetParameters this ins outs \<noteq> Some (OK, this')) \<and>
         (constructed_from this ins outs \<and> contract_counts_hold ins outs \<and>
          contract_names_hold ins outs \<and>
          GetParameters (Shape (outs ! 2)) (Shape (outs ! 0)) False = Inr p \<longrightarrow>
            (\<exists>k i this'. Validate GetParameters this ins outs =
               Some (Fail (UnsupportedDataType k i), this')))"
proof (intro conjI allI impI)
  show "Validate GetParameters this ins outs \<noteq> Some (OK, this')" for this'
    using Validate_accepted [of GetParameters this ins outs this'] assms by blast
  assume "constructed_from this ins outs \<and> contract_counts_hold ins outs \<and>
          contract_names_hold ins outs \<and>
          GetParameters (Shape (outs ! 2)) (Shape (outs ! 0)) False = Inr p"
  then show "\<exists>k i this'. Validate GetParameters this ins outs =
               Some (Fail (UnsupportedDataType k i), this')"
    using Validate_type_stage_rejects [of this ins outs GetParameters p] assms by blast
qed

theorem Validate_rejects_element_types_witness:
  "(\<forall>this'. Validate example_GetParameters (example_subgraph 3 6 None)
       (retyped example_inputs 1 TensorProto_DataType_INT64) example_outputs \<noteq> Some (OK, this')) \<and>
   (\<exists>k i this'. Validate example_GetParameters (example_subgraph 3 6 None)
       (retyped example_inputs 1 TensorProto_DataType_INT64) example_outputs =
         Some (Fail (UnsupportedDataType k i), this'))"
  using Validate_rejects_element_types [of "retyped example_inputs 1 TensorProto_DataType_INT64"
      example_outputs example_GetParameters "example_subgraph 3 6 None" example_parameters]
  by (simp add: constructed_from_def contract_counts_hold_def contract_names_hold_iff
      contract_types_hold_def retyped_def example_subgraph_def example_inputs_def
      example_outputs_def example_GetParameters_def example_parameters_def)

text \<open>
  C5 does not hold whenever an element type is wrong: the names are checked before the
  element types. With input 0 both renamed and of type int64 the failure is
  \<open>NameMismatch\<close>.
\<close>

theorem Validate_names_before_element_types:
  "elem_type (retyped (renamed example_inputs 0 ''input_ids'') 0 TensorProto_DataType_INT64 ! 0)
     \<noteq> TensorProto_DataType_INT32 \<and>
   Validate example_GetParameters (example_subgraph 3 6 None)
     (retyped (renamed example_inputs 0 ''input_ids'') 0 TensorProto_DataType_INT64)
     example_outputs =
   Some (Fail (NameMismatch Input 0 ''encoder_input_ids'' ''input_ids''),
         example_subgraph 3 6 None)"
  by (simp add: Validate_def renamed_def retyped_def example_subgraph_def example_inputs_def
      example_outputs_def static_cast_int_def int_sub_def at_def signed_modulo_int_def)

text \<open>
  C9. \<^verbatim>\<open>Validate\<close> changes nothing of the object but the model parameters: whatever status it
  returns, the object afterwards is the object before with new values (possibly the old
  ones) in \<^verbatim>\<open>num_heads\<close>, \<^verbatim>\<open>head_size\<close>, \<^verbatim>\<open>hidden_size\<close>, \<^verbatim>\<open>num_layers\<close> and the float16 flag.
  For an object constructed from the signature the call does return.
\<close>

theorem Validate_frame:
  "(constructed_from this ins outs \<longrightarrow> Validate GetParameters this ins outs \<noteq> None) \<and>
   (\<forall>status this'. Validate GetParameters this ins outs = Some (status, this') \<longrightarrow>
      (\<exists>heads width hidden layers float16.
         this' = this\<lparr>num_heads := heads, head_size := width, hidden_size := hidden,
                     num_layers := layers, is_output_float16 := float16\<rparr>))"
proof (intro conjI allI impI)
  assume "constructed_from this ins outs"
  then show "Validate GetParameters this ins outs \<noteq> None" by (rule Validate_defined)
next
  fix status this'
  assume "Validate GetParameters this ins outs = Some (status, this')"
  from parameters_only [OF Validate_keeps [OF this]]
  show "\<exists>heads width hidden layers float16.
         this' = this\<lparr>num_heads := heads, head_size := width, hidden_size := hidden,
                     num_layers := layers, is_output_float16 := float16\<rparr>"
    by blast
qed

theorem Validate_frame_witness:
  "Validate example_GetParameters (example_subgraph 3 6 (Some ())) example_inputs example_outputs
     \<noteq> None \<and>
   (\<exists>status this'. Validate example_GetParameters (example_subgraph 3 6 (Some ())) example_inputs
        example_outputs = Some (status, this') \<and>
      (\<exists>heads width hidden layers float16.
         this' = (example_subgraph 3 6 (Some ()))\<lparr>num_heads := heads, head_size := width,
                     hidden_size := hidden, num_layers := layers, is_output_float16 := float16\<rparr>))"
  using Validate_frame [of "example_subgraph 3 6 (Some ())" example_inputs example_outputs
      example_GetParameters] example_constructed_from [of "Some ()"]
  by auto

text \<open>
  C10. \<^verbatim>\<open>Validate\<close> is not atomic on failure: when a signature passes the count checks, the
  name checks and the shape extraction but fails an element-type check, the error is
  returned from an object in which \<^verbatim>\<open>num_layers\<close> and the shape-derived parameters are
  already set (the float16 flag is not).
\<close>

theorem Validate_not_atomic:
  assumes "constructed_from this ins outs" and "contract_counts_hold ins outs"
    and "contract_names_hold ins outs"
    and "GetParameters (Shape (outs ! 2)) (Shape (outs ! 0)) False = Inr p"
    and "\<not> contract_types_hold ins outs"
  shows "\<exists>k i this'. Validate GetParameters this ins outs =
             Some (Fail (UnsupportedDataType k i), this') \<and>
           sint (num_layers this') = (int (length outs) - 2) div 4 \<and>
           num_heads this' = shape_num_heads p \<and> head_size this' = shape_head_size p \<and>
           hidden_size this' = shape_hidden_size p \<and>
           is_output_float16 this' = is_output_float16 this"
proof -
  from Validate_type_stage_rejects [where GetParameters = GetParameters and p = p, OF assms]
  obtain k i
    where "Validate GetParameters this ins outs =
           Some (Fail (UnsupportedDataType k i),
                 with_parameters this p (word_of_int ((int (length outs) - 2) div 4)))"
    by blast
  moreover have "sint (word_of_int ((int (length outs) - 2) div 4) :: int32)
      = (int (length outs) - 2) div 4"
    using assms(1) sint_int32_range [of "num_subgraph_outputs this"]
    by (intro sint_word_of_int_small) (simp_all add: constructed_from_def)
  ultimately show ?thesis by (simp add: with_parameters_def)
qed

theorem Validate_not_atomic_witness:
  "\<exists>k i this'. Validate example_GetParameters (example_subgraph 3 6 None) example_inputs
       (retyped example_outputs 0 TensorProto_DataType_DOUBLE) =
         Some (Fail (UnsupportedDataType k i), this') \<and>
     sint (num_layers this') = 1 \<and> num_heads this' = 8 \<and> head_size this' = 64 \<and>
     hidden_size this' = 512 \<and> \<not> is_output_float16 this'"
  using Validate_not_atomic [of "example_subgraph 3 6 None" example_inputs
      "retyped example_outputs 0 TensorProto_DataType_DOUBLE" example_GetParameters
      example_parameters]
  by (simp add: constructed_from_def contract_counts_hold_def contract_names_hold_iff
      contract_types_hold_def retyped_def example_subgraph_def example_inputs_def
      example_outputs_def example_GetParameters_def example_parameters_def)

section \<open>Properties of CreateInitialFeeds\<close>

lemma push_back_all_append: "push_back_all feeds implicit_inputs = feeds @ implicit_inputs"
  by (induction implicit_inputs arbitrary: feeds) simp_all

text \<open>
  The request is the sum of the two counts modulo \<open>2 ^ 64\<close>: their sum where no count is
  negative, and a count near \<open>2 ^ 64\<close> where the sum is negative.
\<close>

lemma reserve_request_sum:
  "int (reserve_request this)
     = (sint (num_subgraph_inputs this) + sint (num_implicit_inputs this)) mod 2 ^ 64"
  by (simp add: reserve_request_def static_cast_size_t_def zmod_int mod_add_eq)

lemma reserve_request_counts:
  assumes "0 \<le> sint (num_subgraph_inputs this)" and "0 \<le> sint (num_implicit_inputs this)"
  shows "reserve_request this
     = nat (sint (num_subgraph_inputs this)) + nat (sint (num_implicit_inputs this))"
proof -
  have "sint (num_subgraph_inputs this) < 2 ^ 31" "sint (num_implicit_inputs this) < 2 ^ 31"
    using sint_int32_range by blast+
  with assms show ?thesis
    by (simp add: reserve_request_def static_cast_size_t_def nat_less_iff)
qed

text \<open>A call that returns success has passed the reserve and run both hooks with success.\<close>

lemma CreateInitialFeeds_succeeds:
  assumes "CreateInitialFeeds max_size GetAllocator GetProvider this encoder_input_ids
             implicit_inputs num_beams pad_token_id start_token_id lengths feeds create add buffer
           = (Returns OK, refs)"
  shows "\<exists>state lengths' a b c feeds' buffer'.
           session_state this = Some state \<and> reserve_request this \<le> max_size \<and>
           create encoder_input_ids num_beams pad_token_id start_token_id lengths
             (GetAllocator state (Location encoder_input_ids)) = (OK, lengths', a, b, c) \<and>
           add (GetProvider state) a b c feeds buffer = (OK, feeds', buffer') \<and>
           refs = \<lparr>sequence_lengths_after = lengths', feeds_after = feeds' @ implicit_inputs,
                    buffer_after = buffer'\<rparr>"
  using assms
  by (auto simp: CreateInitialFeeds_def Let_def push_back_all_append
      split: option.splits prod.splits Status.splits if_splits)

text \<open>The reserve throws before any hook runs, and nothing is changed.\<close>

lemma CreateInitialFeeds_reserve_throws:
  assumes "session_state this = Some state" and "max_size < reserve_request this"
  shows "CreateInitialFeeds max_size GetAllocator GetProvider this encoder_input_ids
           implicit_inputs num_beams pad_token_id start_token_id lengths feeds create add buffer =
         (Throws_length_error,
          \<lparr>sequence_lengths_after = lengths, feeds_after = feeds, buffer_after = buffer\<rparr>)"
  using assms by (simp add: CreateInitialFeeds_def)

lemma example_reserve: "reserve_request (example_subgraph 3 6 session) \<le> example_max_size"
  by (simp add: reserve_request_def static_cast_size_t_def example_subgraph_def
      example_max_size_def)

lemma example_call:
  "session_state (example_subgraph 3 6 session) = session"
  "\<not> example_max_size < reserve_request (example_subgraph 3 6 session)"
  using example_reserve [of session] by (simp_all add: example_subgraph_def)

text \<open>With 3 inputs and an implicit-input count of -4 the request is \<open>2 ^ 64 - 1\<close>.\<close>

lemma example_reserve_throws:
  "CreateInitialFeeds example_max_size (\<lambda>state location. ()) (\<lambda>state. ())
     ((example_subgraph 3 6 (Some ()))\<lparr>num_implicit_inputs := - 4\<rparr>)
     example_tensor [Some example_tensor] 4 0 0 [0, 0] [] idle_create_encoder_inputs
     push_add_to_feeds () =
   (Throws_length_error,
    \<lparr>sequence_lengths_after = [0, 0], feeds_after = [], buffer_after = ()\<rparr>)"
  by (simp add: CreateInitialFeeds_def reserve_request_def static_cast_size_t_def
      example_subgraph_def example_max_size_def)

lemma example_groups: "beam_groups_equal 2 4 [5, 5, 5, 5, 3, 3, 3, 3 :: int32]"
  by code_simp

lemma example_batch: "batch_size_of example_tensor = 2" "nat (sint (4 :: int32)) = 4"
  by (simp_all add: batch_size_of_def example_tensor_def)

lemma example_expansion_0_0:
  "example_expansion example_tensor 0 0 =
     (Some example_tensor, Some example_mask, Some example_decoder_input_ids)"
  by code_simp

lemma example_idle:
  "idle_create_encoder_inputs example_tensor 4 0 0 lengths () =
     (OK, lengths, Some example_tensor, Some example_mask, Some example_decoder_input_ids)"
  by (simp add: idle_create_encoder_inputs_def example_expansion_0_0)

lemma example_filling:
  "filling_create_encoder_inputs [5, 3] example_tensor 4 0 0 (replicate 8 0) ()
   = (OK, [5, 5, 5, 5, 3, 3, 3, 3], Some example_tensor, Some example_mask,
      Some example_decoder_input_ids)"
  "filling_create_encoder_inputs [5, 3] example_tensor 4 0 0 (replicate 10 0) ()
   = (OK, [5, 5, 5, 5, 3, 3, 3, 3, 0, 0], Some example_tensor, Some example_mask,
      Some example_decoder_input_ids)"
  by code_simp+

text \<open>
  C2. For every call that succeeds, the feed list is the list that the feed hook left,
  followed by the implicit inputs, unmodified and in their order. The feed hook was handed
  the caller's feed list and the expanded encoder input ids, attention mask and decoder
  input ids, in this order. So where the hook pushed these three behind the caller's list,
  the feed list is the caller's list, the three in this order, and the implicit inputs;
  its length is \<open>3 + length implicit_inputs\<close> where the caller's list was empty.
\<close>

theorem CreateInitialFeeds_feed_list:
  assumes "CreateInitialFeeds max_size GetAllocator GetProvider this encoder_input_ids
             implicit_inputs num_beams pad_token_id start_token_id lengths feeds create add buffer
           = (Returns OK, refs)"
  shows "\<exists>state lengths' a b c feeds' buffer'.
           session_state this = Some state \<and>
           create encoder_input_ids num_beams pad_token_id start_token_id lengths
             (GetAllocator state (Location encoder_input_ids)) = (OK, lengths', a, b, c) \<and>
           add (GetProvider state) a b c feeds buffer = (OK, feeds', buffer') \<and>
           feeds_after refs = feeds' @ implicit_inputs \<and>
           length (feeds_after refs) = length feeds' + length implicit_inputs \<and>
           (feeds' = feeds @ [a, b, c] \<longrightarrow>
              feeds_after refs = feeds @ [a, b, c] @ implicit_inputs \<and>
              length (feeds_after refs) = length feeds + 3 + length implicit_inputs) \<and>
           (feeds = [] \<and> feeds' = [a, b, c] \<longrightarrow>
              feeds_after refs = a # b # c # implicit_inputs \<and>
              length (feeds_after refs) = 3 + length implicit_inputs)"
proof -
  from CreateInitialFeeds_succeeds [OF assms] obtain state lengths' a b c feeds' buffer'
    where s: "session_state this = Some state"
      and c: "create encoder_input_ids num_beams pad_token_id start_token_id lengths
             (GetAllocator state (Location encoder_input_ids)) = (OK, lengths', a, b, c)"
      and f: "add (GetProvider state) a b c feeds buffer = (OK, feeds', buffer')"
      and r: "feeds_after refs = feeds' @ implicit_inputs"
    by auto
  from r have "length (feeds_after refs) = length feeds' + length implicit_inputs"
    and "feeds' = feeds @ [a, b, c] \<longrightarrow>
           feeds_after refs = feeds @ [a, b, c] @ implicit_inputs \<and>
           length (feeds_after refs) = length feeds + 3 + length implicit_inputs"
    and "feeds = [] \<and> feeds' = [a, b, c] \<longrightarrow>
           feeds_after refs = a # b # c # implicit_inputs \<and>
           length (feeds_after refs) = 3 + length implicit_inputs"
    by simp_all
  with s c f r show ?thesis by blast
qed

theorem CreateInitialFeeds_feed_list_witness:
  "\<exists>refs. CreateInitialFeeds example_max_size (\<lambda>state location. ()) (\<lambda>state. ())
       (example_subgraph 3 6 (Some ())) example_tensor [None, Some example_tensor] 4 0 0
       [] [] idle_create_encoder_inputs push_add_to_feeds () = (Returns OK, refs) \<and>
     feeds_after refs =
       [Some example_tensor, Some example_mask, Some example_decoder_input_ids,
        None, Some example_tensor] \<and>
     length (feeds_after refs) = 3 + length [None, Some example_tensor]"
proof -
  let ?refs = "\<lparr>sequence_lengths_after = [],
      feeds_after = [Some example_tensor, Some example_mask, Some example_decoder_input_ids,
        None, Some example_tensor],
      buffer_after = ()\<rparr>"
  have call: "CreateInitialFeeds example_max_size (\<lambda>state location. ()) (\<lambda>state. ())
      (example_subgraph 3 6 (Some ())) example_tensor [None, Some example_tensor] 4 0 0
      [] [] idle_create_encoder_inputs push_add_to_feeds () = (Returns OK, ?refs)"
    by (simp add: CreateInitialFeeds_def example_call example_idle push_add_to_feeds_def)
  from CreateInitialFeeds_feed_list [OF call]
  have "feeds_after ?refs =
      [Some example_tensor, Some example_mask, Some example_decoder_input_ids,
       None, Some example_tensor] \<and>
    length (feeds_after ?refs) = 3 + length [None, Some example_tensor]"
    by (auto simp: example_idle push_add_to_feeds_def)
  with call show ?thesis by blast
qed

text \<open>
  C2 does not hold for every successful call: the feed list is the caller's vector, which
  the function never clears. With one entry in it at the call and three implicit inputs,
  the call succeeds with 7 feeds, the three explicit ones at positions 1, 2, 3.
\<close>

theorem CreateInitialFeeds_keeps_caller_feeds:
  "CreateInitialFeeds example_max_size (\<lambda>state location. ()) (\<lambda>state. ())
     (example_subgraph 3 6 (Some ())) example_tensor [None, Some example_tensor, None] 4 0 0
     [] [Some example_mask] idle_create_encoder_inputs push_add_to_feeds () =
   (Returns OK,
    \<lparr>sequence_lengths_after = [],
     feeds_after = [Some example_mask,
       Some example_tensor, Some example_mask, Some example_decoder_input_ids,
       None, Some example_tensor, None],
     buffer_after = ()\<rparr>)"
  by (simp add: CreateInitialFeeds_def example_call example_idle push_add_to_feeds_def)

text \<open>
  C6. Before \<^verbatim>\<open>Setup\<close> has bound the session state, \<^verbatim>\<open>CreateInitialFeeds\<close> fails, whatever its
  other arguments: it throws the \<^verbatim>\<open>ORT_ENFORCE\<close> failure "Setup must be called before
  CreateInitialFeeds" (the not-initialized error), calls no hook and leaves the feed list,
  the sequence lengths and the buffer as they were.
\<close>

theorem CreateInitialFeeds_before_Setup:
  assumes "session_state this = None"
  shows "CreateInitialFeeds max_size GetAllocator GetProvider this encoder_input_ids
           implicit_inputs num_beams pad_token_id start_token_id lengths feeds create add buffer =
         (Throws ''Setup must be called before CreateInitialFeeds'',
          \<lparr>sequence_lengths_after = lengths, feeds_after = feeds, buffer_after = buffer\<rparr>)"
  using assms by (simp add: CreateInitialFeeds_def)

theorem CreateInitialFeeds_before_Setup_witness:
  "CreateInitialFeeds example_max_size (\<lambda>state location. ()) (\<lambda>state. ())
     (example_subgraph 3 6 None)
     example_tensor [Some example_tensor] 4 0 0 [0, 0] [] idle_create_encoder_inputs
     push_add_to_feeds () =
   (Throws ''Setup must be called before CreateInitialFeeds'',
    \<lparr>sequence_lengths_after = [0, 0], feeds_after = [], buffer_after = ()\<rparr>)"
  using CreateInitialFeeds_before_Setup [where this = "example_subgraph 3 6 None"
      and max_size = example_max_size and GetAllocator = "\<lambda>state location. ()"
      and GetProvider = "\<lambda>state. ()" and encoder_input_ids = example_tensor
      and implicit_inputs = "[Some example_tensor]" and num_beams = 4 and pad_token_id = 0
      and start_token_id = 0 and lengths = "[0, 0]" and feeds = "[]"
      and create = idle_create_encoder_inputs and add = push_add_to_feeds and buffer = "()"]
  by (simp add: example_subgraph_def)

text \<open>
  C7. In a call that reaches the hooks (the session state is bound and the reserve does
  not throw), an error of the expansion hook is the result of \<^verbatim>\<open>CreateInitialFeeds\<close> as it
  is, and the feed list stays as it was; an error of the feed hook is the result as it is,
  and the feed list stays as that hook left it. In both cases no implicit input is
  appended.
\<close>

theorem CreateInitialFeeds_propagates:
  assumes "session_state this = Some state"
    and "reserve_request this \<le> max_size"
    and "create encoder_input_ids num_beams pad_token_id start_token_id lengths
           (GetAllocator state (Location encoder_input_ids)) = (status, lengths', a, b, c)"
    and "add (GetProvider state) a b c feeds buffer = (status', feeds', buffer')"
  shows "(status = Fail e \<longrightarrow>
            CreateInitialFeeds max_size GetAllocator GetProvider this encoder_input_ids
              implicit_inputs num_beams pad_token_id start_token_id lengths feeds create add
              buffer =
            (Returns (Fail e),
             \<lparr>sequence_lengths_after = lengths', feeds_after = feeds, buffer_after = buffer\<rparr>)) \<and>
         (status = OK \<and> status' = Fail e \<longrightarrow>
            CreateInitialFeeds max_size GetAllocator GetProvider this encoder_input_ids
              implicit_inputs num_beams pad_token_id start_token_id lengths feeds create add
              buffer =
            (Returns (Fail e),
             \<lparr>sequence_lengths_after = lengths', feeds_after = feeds', buffer_after = buffer'\<rparr>))"
  using assms by (simp add: CreateInitialFeeds_def)

theorem CreateInitialFeeds_propagates_witness:
  "CreateInitialFeeds example_max_size (\<lambda>state location. ()) (\<lambda>state. ())
     (example_subgraph 3 6 (Some ()))
     example_tensor [Some example_tensor] 4 0 0 [0, 0] [] failing_create_encoder_inputs
     push_add_to_feeds () =
   (Returns (Fail ''AllocationError''),
    \<lparr>sequence_lengths_after = [0, 0], feeds_after = [], buffer_after = ()\<rparr>) \<and>
   CreateInitialFeeds example_max_size (\<lambda>state location. ()) (\<lambda>state. ())
     (example_subgraph 3 6 (Some ()))
     example_tensor [Some example_tensor] 4 0 0 [0, 0] [] idle_create_encoder_inputs
     failing_add_to_feeds () =
   (Returns (Fail ''DeviceMismatchError''),
    \<lparr>sequence_lengths_after = [0, 0], feeds_after = [Some example_tensor], buffer_after = ()\<rparr>)"
proof -
  have bound: "session_state (example_subgraph 3 6 (Some ())) = Some ()"
    by (simp add: example_subgraph_def)
  have failing: "failing_create_encoder_inputs example_tensor 4 0 0 [0, 0] ()
      = (Fail ''AllocationError'', [0, 0], None, None, None)"
    by (simp add: failing_create_encoder_inputs_def)
  have pushed: "push_add_to_feeds () None None None [] () = (OK, [None, None, None], ())"
    by (simp add: push_add_to_feeds_def)
  have refused: "failing_add_to_feeds () (Some example_tensor) (Some example_mask)
      (Some example_decoder_input_ids) [] ()
      = (Fail ''DeviceMismatchError'', [Some example_tensor], ())"
    by (simp add: failing_add_to_feeds_def)
  show ?thesis
    using CreateInitialFeeds_propagates [where this = "example_subgraph 3 6 (Some ())"
        and state = "()" and max_size = example_max_size
        and GetAllocator = "\<lambda>state location. ()" and GetProvider = "\<lambda>state. ()"
        and create = failing_create_encoder_inputs and add = push_add_to_feeds
        and encoder_input_ids = example_tensor and implicit_inputs = "[Some example_tensor]"
        and num_beams = 4 and pad_token_id = 0 and start_token_id = 0
        and lengths = "[0, 0]" and feeds = "[]" and buffer = "()"
        and status = "Fail ''AllocationError''" and lengths' = "[0, 0]"
        and a = None and b = None and c = None
        and status' = OK and feeds' = "[None, None, None]" and buffer' = "()"
        and e = "''AllocationError''"]
      CreateInitialFeeds_propagates [where this = "example_subgraph 3 6 (Some ())"
        and state = "()" and max_size = example_max_size
        and GetAllocator = "\<lambda>state location. ()" and GetProvider = "\<lambda>state. ()"
        and create = idle_create_encoder_inputs and add = failing_add_to_feeds
        and encoder_input_ids = example_tensor and implicit_inputs = "[Some example_tensor]"
        and num_beams = 4 and pad_token_id = 0 and start_token_id = 0
        and lengths = "[0, 0]" and feeds = "[]" and buffer = "()"
        and status = OK and lengths' = "[0, 0]"
        and a = "Some example_tensor" and b = "Some example_mask"
        and c = "Some example_decoder_input_ids"
        and status' = "Fail ''DeviceMismatchError''" and feeds' = "[Some example_tensor]"
        and buffer' = "()" and e = "''DeviceMismatchError''"]
    by (simp add: bound example_reserve failing pushed refused example_idle)
qed

text \<open>
  C8. \<^verbatim>\<open>CreateInitialFeeds\<close> does not allocate the sequence lengths: the caller passes the
  buffer, the function hands it to the expansion hook, and after a successful call the
  sequence lengths are what that hook left in the caller's buffer. So they have
  \<open>batch_size * num_beams\<close> entries, equal within each beam group, if the hook left them so.
\<close>

theorem CreateInitialFeeds_sequence_lengths:
  assumes "CreateInitialFeeds max_size GetAllocator GetProvider this encoder_input_ids
             implicit_inputs num_beams pad_token_id start_token_id lengths feeds create add buffer
           = (Returns OK, refs)"
  shows "\<exists>state a b c.
           session_state this = Some state \<and>
           create encoder_input_ids num_beams pad_token_id start_token_id lengths
             (GetAllocator state (Location encoder_input_ids))
             = (OK, sequence_lengths_after refs, a, b, c) \<and>
           (beam_groups_equal (batch_size_of encoder_input_ids) (nat (sint num_beams))
              (fst (snd (create encoder_input_ids num_beams pad_token_id start_token_id lengths
                 (GetAllocator state (Location encoder_input_ids))))) \<longrightarrow>
            beam_groups_equal (batch_size_of encoder_input_ids) (nat (sint num_beams))
              (sequence_lengths_after refs))"
  using CreateInitialFeeds_succeeds [OF assms] by auto

theorem CreateInitialFeeds_sequence_lengths_witness:
  "\<exists>refs. CreateInitialFeeds example_max_size (\<lambda>state location. ()) (\<lambda>state. ())
        (example_subgraph 3 6 (Some ()))
        example_tensor [] 4 0 0 (replicate 8 0) [] (filling_create_encoder_inputs [5, 3])
        push_add_to_feeds () = (Returns OK, refs) \<and>
      sequence_lengths_after refs = [5, 5, 5, 5, 3, 3, 3, 3] \<and>
      beam_groups_equal 2 4 (sequence_lengths_after refs)"
proof -
  let ?refs = "\<lparr>sequence_lengths_after = [5, 5, 5, 5, 3, 3, 3, 3 :: int32],
      feeds_after = [Some example_tensor, Some example_mask, Some example_decoder_input_ids],
      buffer_after = ()\<rparr>"
  have call: "CreateInitialFeeds example_max_size (\<lambda>state location. ()) (\<lambda>state. ())
      (example_subgraph 3 6 (Some ())) example_tensor [] 4 0 0 (replicate 8 0) []
      (filling_create_encoder_inputs [5, 3]) push_add_to_feeds () = (Returns OK, ?refs)"
    by (simp add: CreateInitialFeeds_def example_call example_filling push_add_to_feeds_def)
  from CreateInitialFeeds_sequence_lengths [OF call]
  have "beam_groups_equal 2 4 (sequence_lengths_after ?refs)"
    by (simp add: example_filling example_batch example_groups)
  with call show ?thesis by simp
qed

text \<open>
  C8 does not hold as a statement about every successful call: the size of the sequence
  lengths is the size of the caller's buffer. With a batch of 2, 4 beams and a buffer of
  10 entries, the call succeeds with 10 sequence lengths, the last two as the caller left
  them.
\<close>

theorem CreateInitialFeeds_keeps_caller_buffer:
  "batch_size_of example_tensor * nat (sint (4 :: int32)) = 8 \<and>
   CreateInitialFeeds example_max_size (\<lambda>state location. ()) (\<lambda>state. ())
     (example_subgraph 3 6 (Some ()))
     example_tensor [] 4 0 0 (replicate 10 0) [] (filling_create_encoder_inputs [5, 3])
     push_add_to_feeds () =
   (Returns OK,
    \<lparr>sequence_lengths_after = [5, 5, 5, 5, 3, 3, 3, 3, 0, 0],
     feeds_after = [Some example_tensor, Some example_mask, Some example_decoder_input_ids],
     buffer_after = ()\<rparr>)"
  by (simp add: CreateInitialFeeds_def example_call example_filling example_batch
      push_add_to_feeds_def)

end
